theory Spec2Isabelle
  imports Main "HOL-Library.AList"
begin

section \<open>Characters and strings\<close>

text \<open>
  A Python string is modelled as a \<open>string\<close> whose characters are the code points
  below 256, one \<open>char\<close> per code point. The character classes of the \<open>re\<close> module
  (for \<open>str\<close> patterns) are written out for that range.
\<close>

definition code :: "char \<Rightarrow> nat" where
  "code c = of_char c"

text \<open>\<open>\d\<close>: the decimal digits.\<close>

definition is_digit :: "char \<Rightarrow> bool" where
  "is_digit c \<longleftrightarrow> 48 \<le> code c \<and> code c \<le> 57"

text \<open>\<open>\s\<close>: tab to carriage return, the four separators 28 to 31, space, NEL, no-break space.\<close>

definition is_space :: "char \<Rightarrow> bool" where
  "is_space c \<longleftrightarrow> (9 \<le> code c \<and> code c \<le> 13) \<or> (28 \<le> code c \<and> code c \<le> 32)
     \<or> code c = 133 \<or> code c = 160"

text \<open>\<open>\w\<close>: alphanumeric characters and the underscore.\<close>

definition is_word :: "char \<Rightarrow> bool" where
  "is_word c \<longleftrightarrow> (48 \<le> code c \<and> code c \<le> 57) \<or> (65 \<le> code c \<and> code c \<le> 90)
     \<or> code c = 95 \<or> (97 \<le> code c \<and> code c \<le> 122)
     \<or> code c = 170 \<or> code c = 178 \<or> code c = 179 \<or> code c = 181 \<or> code c = 185
     \<or> code c = 186 \<or> (188 \<le> code c \<and> code c \<le> 190)
     \<or> (192 \<le> code c \<and> code c \<le> 214) \<or> (216 \<le> code c \<and> code c \<le> 246)
     \<or> 248 \<le> code c"

text \<open>\<open>[A-Z]\<close> under \<open>re.IGNORECASE\<close>: the letters of either case.\<close>

definition is_letter :: "char \<Rightarrow> bool" where
  "is_letter c \<longleftrightarrow> (65 \<le> code c \<and> code c \<le> 90) \<or> (97 \<le> code c \<and> code c \<le> 122)"

text \<open>
  \<open>str.lower\<close> and \<open>str.upper\<close> on one character: the letter of the other case is 32
  code points away, that is, bit 5 set or cleared. The three characters below 256 whose
  upper case lies outside that range or is longer than one character (181, 223, 255) are
  left unchanged by \<open>upper_char\<close>; the program applies \<open>upper\<close> and \<open>capitalize\<close>
  only to text captured by patterns that admit the letters A to Z alone.
\<close>

definition lower_char :: "char \<Rightarrow> char" where
  "lower_char c =
     (if (65 \<le> code c \<and> code c \<le> 90) \<or> (192 \<le> code c \<and> code c \<le> 222 \<and> code c \<noteq> 215)
      then (case c of Char b0 b1 b2 b3 b4 b5 b6 b7 \<Rightarrow> Char b0 b1 b2 b3 b4 True b6 b7)
      else c)"

definition upper_char :: "char \<Rightarrow> char" where
  "upper_char c =
     (if (97 \<le> code c \<and> code c \<le> 122) \<or> (224 \<le> code c \<and> code c \<le> 254 \<and> code c \<noteq> 247)
      then (case c of Char b0 b1 b2 b3 b4 b5 b6 b7 \<Rightarrow> Char b0 b1 b2 b3 b4 False b6 b7)
      else c)"

definition lower :: "string \<Rightarrow> string" where
  "lower s = map lower_char s"

definition upper :: "string \<Rightarrow> string" where
  "upper s = map upper_char s"

fun capitalize :: "string \<Rightarrow> string" where
  "capitalize [] = []"
| "capitalize (c # s) = upper_char c # lower s"

text \<open>Python's \<open>a in title\<close> on strings: \<open>a\<close> occurs in \<open>t\<close> as a contiguous run.\<close>

fun contains :: "string \<Rightarrow> string \<Rightarrow> bool" where
  "contains [] a = (a = [])"
| "contains (c # t) a = (take (length a) (c # t) = a \<or> contains t a)"

text \<open>The value of a run of decimal digits, as \<open>int\<close> reads it (leading zeros allowed).\<close>

definition digit_val :: "char \<Rightarrow> int" where
  "digit_val c = int (code c) - 48"

definition digits_val :: "string \<Rightarrow> int" where
  "digits_val s = foldl (\<lambda>acc c. acc * 10 + digit_val c) 0 s"

section \<open>Exceptions\<close>

datatype exn = StopIteration | AttributeError | TypeError | ValueError | KeyError

definition bind_exn :: "exn + 'a \<Rightarrow> ('a \<Rightarrow> exn + 'b) \<Rightarrow> exn + 'b" where
  "bind_exn x f = (case x of Inl e \<Rightarrow> Inl e | Inr v \<Rightarrow> f v)"

text \<open>
  \<open>int(g)\<close> on a captured group \<open>g\<close>: \<open>None\<close> (a group that took no part in the match)
  raises TypeError. The conversion is modelled on what the patterns capture, non-empty runs
  of decimal digits, with integers unbounded; any other text is sent to ValueError.
\<close>

definition py_int :: "string option \<Rightarrow> exn + int" where
  "py_int g = (case g of None \<Rightarrow> Inl TypeError
     | Some s \<Rightarrow> if s \<noteq> [] \<and> list_all is_digit s then Inr (digits_val s) else Inl ValueError)"

text \<open>A string method called on a captured group: on \<open>None\<close> it raises AttributeError.\<close>

definition py_str :: "(string \<Rightarrow> string) \<Rightarrow> string option \<Rightarrow> exn + string" where
  "py_str f g = (case g of None \<Rightarrow> Inl AttributeError | Some s \<Rightarrow> Inr (f s))"

section \<open>Regular expressions\<close>

text \<open>
  The fragment of \<open>re\<close> the program's three patterns use, compiled with
  \<open>re.IGNORECASE\<close>: literal text, a character class repeated between two bounds (greedy
  or lazy), sequence, ordered alternation, a named group, \<open>\b\<close> and \<open>^\<close>.
\<close>

datatype cls = Digit | Space | Dot | Zero | Letter

fun cls_ok :: "cls \<Rightarrow> char \<Rightarrow> bool" where
  "cls_ok Digit c = is_digit c"
| "cls_ok Space c = is_space c"
| "cls_ok Dot c = (c \<noteq> CHR 0x0A)"
| "cls_ok Zero c = (c = CHR ''0'')"
| "cls_ok Letter c = is_letter c"

datatype rx =
    Str string
  | Rep cls nat "nat option" bool
  | Seq rx rx
  | Alt rx rx
  | Grp string rx
  | WordB
  | Bol

fun seqs :: "rx list \<Rightarrow> rx" where
  "seqs [] = Str []"
| "seqs [r] = r"
| "seqs (r # rs) = Seq r (seqs rs)"

text \<open>
  A matcher state: the text before the current position, the text after it, and the
  groups captured so far (name and captured text).
\<close>

type_synonym caps = "(string \<times> string) list"
type_synonym mstate = "string \<times> string \<times> caps"

text \<open>A literal matches text that is equal to it once both are lower-cased.\<close>

definition ci_eq :: "string \<Rightarrow> string \<Rightarrow> bool" where
  "ci_eq w u \<longleftrightarrow> lower u = lower w"

text \<open>\<open>\b\<close>: exactly one of the characters on the two sides of the position is a word character.\<close>

definition at_boundary :: "string \<Rightarrow> string \<Rightarrow> bool" where
  "at_boundary b s \<longleftrightarrow> (b \<noteq> [] \<and> is_word (last b)) \<noteq> (s \<noteq> [] \<and> is_word (hd s))"

text \<open>
  The numbers of repetitions a repeat tries, in the order it tries them, when \<open>n\<close>
  characters of the class follow: a greedy repeat from the most down, a lazy one from the
  fewest up.
\<close>

definition rep_counts :: "bool \<Rightarrow> nat \<Rightarrow> nat option \<Rightarrow> nat \<Rightarrow> nat list" where
  "rep_counts greedy lo hi n =
     (let m = (case hi of None \<Rightarrow> n | Some h \<Rightarrow> min h n); ks = [lo..<Suc m]
      in if greedy then rev ks else ks)"

text \<open>
  The backtracking matcher: every way the pattern matches at the state, in the order the
  engine finds them. The head of the list is the match \<open>re\<close> reports.
\<close>

fun rx_m :: "rx \<Rightarrow> mstate \<Rightarrow> mstate list" where
  "rx_m (Str w) (b, s, g) =
     (if ci_eq w (take (length w) s) then [(b @ take (length w) s, drop (length w) s, g)] else [])"
| "rx_m (Rep c lo hi greedy) (b, s, g) =
     map (\<lambda>k. (b @ take k s, drop k s, g)) (rep_counts greedy lo hi (length (takeWhile (cls_ok c) s)))"
| "rx_m (Seq r1 r2) st = concat (map (rx_m r2) (rx_m r1 st))"
| "rx_m (Alt r1 r2) st = rx_m r1 st @ rx_m r2 st"
| "rx_m (Grp n r) (b, s, g) =
     map (\<lambda>(b', s', g'). (b', s', AList.update n (drop (length b) b') g')) (rx_m r (b, s, g))"
| "rx_m WordB (b, s, g) = (if at_boundary b s then [(b, s, g)] else [])"
| "rx_m Bol (b, s, g) = (if b = [] then [(b, s, g)] else [])"

text \<open>\<open>pattern.search\<close>: the first match at the leftmost position that has one.\<close>

fun search_from :: "rx \<Rightarrow> string \<Rightarrow> string \<Rightarrow> mstate option" where
  "search_from r b [] = (case rx_m r (b, [], []) of [] \<Rightarrow> None | st # _ \<Rightarrow> Some st)"
| "search_from r b (c # s) =
     (case rx_m r (b, c # s, []) of [] \<Rightarrow> search_from r (b @ [c]) s | st # _ \<Rightarrow> Some st)"

definition rx_search :: "rx \<Rightarrow> string \<Rightarrow> mstate option" where
  "rx_search r text = search_from r [] text"

text \<open>\<open>re.match\<close>: the first match at the start of the text.\<close>

definition rx_match :: "rx \<Rightarrow> string \<Rightarrow> mstate option" where
  "rx_match r text = (case rx_m r ([], text, []) of [] \<Rightarrow> None | st # _ \<Rightarrow> Some st)"

text \<open>\<open>m.group(name)\<close>: the captured text, \<open>None\<close> for a group that took no part.\<close>

definition group :: "mstate \<Rightarrow> string \<Rightarrow> string option" where
  "group m n = map_of (snd (snd m)) n"

section \<open>The report parser\<close>

record Entry =
  block :: string
  level :: int
  side :: string
  qnum :: int
  count :: int
  kind :: string

abbreviation spaces0 :: rx where "spaces0 \<equiv> Rep Space 0 None True"
abbreviation spaces1 :: rx where "spaces1 \<equiv> Rep Space 1 None True"

text \<open>\<open>LINE_RE\<close>, one definition for each line of the verbose pattern.\<close>

definition LINE_COUNT :: rx where
  "LINE_COUNT = seqs [Bol, spaces0, Grp ''count'' (Rep Digit 1 None True), spaces1,
     Str ''pictures'', spaces0, Str ''-'', spaces0]"

definition LINE_BLOCK :: rx where
  "LINE_BLOCK = seqs [Str ''Block'', spaces1, Grp ''block'' (Rep Letter 1 (Some 1) True), spaces1]"

definition LINE_LEVEL :: rx where
  "LINE_LEVEL = seqs [Str ''L'', Grp ''level'' (Rep Digit 1 (Some 2) True), spaces1]"

definition LINE_SIDE :: rx where
  "LINE_SIDE = seqs [Grp ''side'' (Alt (Str ''North'') (Alt (Str ''South'') (Alt (Str ''East'') (Str ''West'')))),
     spaces1]"

definition LINE_KIND :: rx where
  "LINE_KIND = seqs [Grp ''kind'' (Alt (Str ''BW'') (Str ''SR'')), WordB]"

definition LINE_QNUM :: rx where
  "LINE_QNUM = seqs [Rep Dot 0 None False, Str ''/'', spaces0, Grp ''qnum'' (Rep Digit 1 None True), WordB]"

definition LINE_RE :: rx where
  "LINE_RE = seqs [LINE_COUNT, LINE_BLOCK, LINE_LEVEL, LINE_SIDE, LINE_KIND, LINE_QNUM]"

text \<open>The body of the loop of \<open>parse_txt\<close> for one line \<open>raw\<close> of the file.\<close>

definition parse_line :: "string \<Rightarrow> exn + Entry option" where
  "parse_line raw =
     (case rx_search LINE_RE raw of
        None \<Rightarrow> Inr None
      | Some m \<Rightarrow>
          bind_exn (py_str upper (group m ''block'')) (\<lambda>b.
          bind_exn (py_int (group m ''level'')) (\<lambda>l.
          bind_exn (py_str capitalize (group m ''side'')) (\<lambda>s.
          bind_exn (py_int (group m ''qnum'')) (\<lambda>q.
          bind_exn (py_int (group m ''count'')) (\<lambda>c.
          bind_exn (py_str upper (group m ''kind'')) (\<lambda>k.
            Inr (Some \<lparr>block = b, level = l, side = s, qnum = q, count = c, kind = k\<rparr>))))))))"

text \<open>\<open>parse_txt\<close> on the lines of the file, each with its line terminator if it has one.\<close>

fun parse_txt :: "string list \<Rightarrow> Entry list \<Rightarrow> exn + Entry list" where
  "parse_txt [] out = Inr out"
| "parse_txt (raw # f) out =
     (case parse_line raw of
        Inl e \<Rightarrow> Inl e
      | Inr None \<Rightarrow> parse_txt f out
      | Inr (Some e) \<Rightarrow> parse_txt f (out @ [e]))"

section \<open>The location label parser\<close>

type_synonym LocationKey = "string \<times> int \<times> string"

text \<open>\<open>LOC_STRICT_RE\<close>: its first line, the four alternatives of the level, its last line.\<close>

definition LOC_BLOCK :: rx where
  "LOC_BLOCK = seqs [Str ''Block'', spaces1, Grp ''block'' (Rep Letter 1 (Some 1) True), WordB,
     Rep Dot 0 None False]"

definition LOC_GL :: rx where
  "LOC_GL = Grp ''gl'' (seqs [WordB, Rep Zero 0 (Some 2) True, spaces0, Str ''-'', spaces0,
     Str ''Ground'', spaces1, Str ''Level'', WordB])"

definition LOC_LVL2 :: rx where
  "LOC_LVL2 = seqs [WordB, Rep Digit 1 (Some 2) True, spaces0, Str ''-'', spaces0, Str ''Level'',
     spaces1, Grp ''lvl2'' (Rep Digit 1 (Some 2) True), WordB]"

definition LOC_LVL1 :: rx where
  "LOC_LVL1 = seqs [WordB, Str ''Level'', spaces1, Grp ''lvl1'' (Rep Digit 1 (Some 2) True), WordB]"

definition LOC_LVL0 :: rx where
  "LOC_LVL0 = seqs [WordB, Str ''L'', Grp ''lvl0'' (Rep Digit 1 (Some 2) True), WordB]"

definition LOC_SIDE :: rx where
  "LOC_SIDE = seqs [Rep Dot 0 None True, Str ''/'', spaces0,
     Grp ''side'' (Alt (Str ''East'') (Alt (Str ''West'') (Alt (Str ''North'') (Str ''South'')))),
     spaces1, Str ''Elevation'', WordB]"

definition LOC_STRICT_RE :: rx where
  "LOC_STRICT_RE = seqs [LOC_BLOCK, Alt LOC_GL (Alt LOC_LVL2 (Alt LOC_LVL1 LOC_LVL0)), LOC_SIDE]"

datatype cell_value = VNone | VStr string | VInt int | VOther

text \<open>Truth of a captured group in a condition: a group that is present and not empty.\<close>

definition truthy :: "string option \<Rightarrow> bool" where
  "truthy g = (case g of None \<Rightarrow> False | Some s \<Rightarrow> s \<noteq> [])"

text \<open>
  \<open>next(int(g) for g in (lvl2, lvl1, lvl0) if g)\<close>: the first truthy group converted;
  StopIteration when there is none.
\<close>

fun next_int :: "string option list \<Rightarrow> exn + int" where
  "next_int [] = Inl StopIteration"
| "next_int (g # gs) = (if truthy g then py_int g else next_int gs)"

definition parse_loc :: "cell_value \<Rightarrow> exn + LocationKey option" where
  "parse_loc text =
     (case text of
        VStr t \<Rightarrow>
          (case rx_search LOC_STRICT_RE t of
             None \<Rightarrow> Inr None
           | Some m \<Rightarrow>
               bind_exn (py_str upper (group m ''block'')) (\<lambda>b.
               bind_exn (if truthy (group m ''gl'') then Inr 0
                         else next_int [group m ''lvl2'', group m ''lvl1'', group m ''lvl0'']) (\<lambda>l.
               bind_exn (py_str capitalize (group m ''side'')) (\<lambda>s.
                 Inr (Some (b, l, s))))))
      | _ \<Rightarrow> Inr None)"

section \<open>The workbook\<close>

text \<open>
  A cell carries a value and a background fill; \<open>PatternFill()\<close> with no argument is the
  empty fill. A worksheet is its title, its dimensions and its cells by row and column
  (\<open>ws.cell\<close> yields an empty cell where none was stored). Every cell the program reaches
  lies within the dimensions, so they do not change. A workbook is the list of its
  worksheets in workbook order, and a worksheet is identified by its position in it.
\<close>

record PatternFill =
  patternType :: "string option"
  fgColor :: string

definition no_fill :: PatternFill where
  "no_fill = \<lparr>patternType = None, fgColor = ''00000000''\<rparr>"

record cell =
  val :: cell_value
  fill :: PatternFill

record worksheet =
  title :: string
  max_row :: nat
  max_column :: nat
  cells :: "nat \<Rightarrow> nat \<Rightarrow> cell"

type_synonym workbook = "worksheet list"

definition color_fill_for_count :: "int \<Rightarrow> PatternFill" where
  "color_fill_for_count n =
     (if n \<le> 6 then \<lparr>patternType = Some ''solid'', fgColor = ''FFFF0000''\<rparr>
      else if 7 \<le> n \<and> n \<le> 20 then \<lparr>patternType = Some ''solid'', fgColor = ''FFFFFF00''\<rparr>
      else \<lparr>patternType = Some ''solid'', fgColor = ''FF00B050''\<rparr>)"

section \<open>Sheet resolution\<close>

definition SHEET_ALIASES :: "string \<Rightarrow> string list option" where
  "SHEET_ALIASES k =
     (if k = ''BW'' then Some [''brickwork'']
      else if k = ''SR'' then Some [''sideraise'', ''siderise'', ''side raise'', ''side-raise'', ''side rise'']
      else None)"

fun pick_loop :: "string list \<Rightarrow> worksheet list \<Rightarrow> nat \<Rightarrow> nat option" where
  "pick_loop aliases [] i = None"
| "pick_loop aliases (ws # rest) i =
     (if list_ex (\<lambda>a. contains (lower (title ws)) a) aliases then Some i
      else pick_loop aliases rest (Suc i))"

definition pick_sheet_for_kind :: "workbook \<Rightarrow> string \<Rightarrow> nat option" where
  "pick_sheet_for_kind wb k =
     pick_loop (map lower (case SHEET_ALIASES k of None \<Rightarrow> [] | Some xs \<Rightarrow> xs)) wb 0"

section \<open>Indices of a worksheet\<close>

text \<open>
  A dictionary whose order of insertion is read (\<open>qmap.values()\<close>) is an association
  list: assigning to a key that is present replaces its value in place, a new key goes
  to the end.
\<close>

type_synonym qmap = "(int \<times> nat) list"
type_synonym rmap = "LocationKey \<rightharpoonup> nat"

definition HDR_RE :: rx where
  "HDR_RE = seqs [Bol, spaces0, Grp ''1'' (Rep Digit 1 None True)]"

fun header_loop :: "(nat \<times> cell_value) list \<Rightarrow> qmap \<Rightarrow> exn + qmap" where
  "header_loop [] qm = Inr qm"
| "header_loop ((j, txt) # rest) qm =
     (case txt of
        VStr t \<Rightarrow>
          (case rx_match HDR_RE t of
             None \<Rightarrow> header_loop rest qm
           | Some m \<Rightarrow> bind_exn (py_int (group m ''1'')) (\<lambda>q. header_loop rest (AList.update q j qm)))
      | _ \<Rightarrow> header_loop rest qm)"

text \<open>\<open>enumerate(ws[header_row], start=1)\<close>: the cells of the row from column 1 to the last column.\<close>

definition build_q_header_map :: "worksheet \<Rightarrow> nat \<Rightarrow> exn + qmap" where
  "build_q_header_map ws header_row =
     header_loop (map (\<lambda>j. (j, val (cells ws header_row j))) [1..<Suc (max_column ws)]) []"

fun row_loop :: "worksheet \<Rightarrow> nat list \<Rightarrow> rmap \<Rightarrow> exn + rmap" where
  "row_loop ws [] rm = Inr rm"
| "row_loop ws (r # rs) rm =
     bind_exn (parse_loc (val (cells ws r 1))) (\<lambda>loc.
       case loc of
         None \<Rightarrow> row_loop ws rs rm
       | Some k \<Rightarrow> if rm k = None then row_loop ws rs (rm(k \<mapsto> r)) else row_loop ws rs rm)"

definition build_row_map :: "worksheet \<Rightarrow> nat \<Rightarrow> exn + rmap" where
  "build_row_map ws header_row = row_loop ws [header_row + 1..<max_row ws + 1] Map.empty"

section \<open>The stale-row cleaner\<close>

definition set_cell :: "worksheet \<Rightarrow> nat \<Rightarrow> nat \<Rightarrow> cell \<Rightarrow> worksheet" where
  "set_cell ws r c x = ws\<lparr>cells := (cells ws)(r := (cells ws r)(c := x))\<rparr>"

definition clear_row :: "worksheet \<Rightarrow> nat \<Rightarrow> nat list \<Rightarrow> worksheet" where
  "clear_row ws r cols = foldl (\<lambda>w c. set_cell w r c \<lparr>val = VNone, fill = no_fill\<rparr>) ws cols"

fun clear_loop :: "worksheet \<Rightarrow> nat list \<Rightarrow> nat list \<Rightarrow> exn + worksheet" where
  "clear_loop ws cols [] = Inr ws"
| "clear_loop ws cols (r # rs) =
     bind_exn (parse_loc (val (cells ws r 1))) (\<lambda>loc.
       if loc = None then clear_loop (clear_row ws r cols) cols rs else clear_loop ws cols rs)"

definition clear_non_location_rows :: "worksheet \<Rightarrow> qmap \<Rightarrow> nat \<Rightarrow> exn + worksheet" where
  "clear_non_location_rows ws qm header_row =
     (let cols = map snd qm
      in if cols = [] then Inr ws
         else clear_loop ws cols [header_row + 1..<max_row ws + 1])"

section \<open>Writing one value\<close>

definition write_one :: "worksheet \<Rightarrow> nat \<Rightarrow> nat \<Rightarrow> int \<Rightarrow> worksheet" where
  "write_one ws r c v = set_cell ws r c \<lparr>val = VInt v, fill = color_fill_for_count v\<rparr>"

section \<open>The main process\<close>

text \<open>
  The state of \<open>process\<close>: the workbook, the four caches, the counter and the list of
  skipped entries. \<open>resolutions\<close> is not a variable of the program: it records, in
  order, the category of every call of \<open>pick_sheet_for_kind\<close>.
\<close>

record pstate =
  wb :: workbook
  sheet_cache :: "string \<rightharpoonup> nat option"
  header_cache :: "nat \<rightharpoonup> qmap"
  row_cache :: "nat \<rightharpoonup> rmap"
  cleared :: "nat set"
  written :: nat
  skipped :: "(Entry \<times> string) list"
  resolutions :: "string list"

definition init_state :: "workbook \<Rightarrow> pstate" where
  "init_state w = \<lparr>wb = w, sheet_cache = Map.empty, header_cache = Map.empty,
     row_cache = Map.empty, cleared = {}, written = 0, skipped = [], resolutions = []\<rparr>"

text \<open>\<open>d.get(k)\<close>: \<open>None\<close> for a missing key and for a key that holds \<open>None\<close>.\<close>

definition dict_get :: "('k \<rightharpoonup> 'v option) \<Rightarrow> 'k \<Rightarrow> 'v option" where
  "dict_get d k = (case d k of None \<Rightarrow> None | Some v \<Rightarrow> v)"

text \<open>\<open>d[k]\<close>: KeyError for a missing key.\<close>

definition dict_item :: "('k \<rightharpoonup> 'v) \<Rightarrow> 'k \<Rightarrow> exn + 'v" where
  "dict_item d k = (case d k of None \<Rightarrow> Inl KeyError | Some v \<Rightarrow> Inr v)"

text \<open>Step 1 of the loop body: the worksheet of a category, from the cache or resolved.\<close>

definition resolve :: "pstate \<Rightarrow> string \<Rightarrow> nat option \<times> pstate" where
  "resolve st k =
     (case dict_get (sheet_cache st) k of
        Some i \<Rightarrow> (Some i, st)
      | None \<Rightarrow>
          (let ws = pick_sheet_for_kind (wb st) k
           in (ws, st\<lparr>sheet_cache := (sheet_cache st)(k \<mapsto> ws),
                       resolutions := resolutions st @ [k]\<rparr>)))"

text \<open>Steps 2 and 3: the indices of worksheet \<open>i\<close> and its cleaning, each done once.\<close>

definition ensure_header :: "pstate \<Rightarrow> nat \<Rightarrow> exn + pstate" where
  "ensure_header st i =
     (if header_cache st i = None
      then bind_exn (build_q_header_map (wb st ! i) 1) (\<lambda>qm.
             Inr (st\<lparr>header_cache := (header_cache st)(i \<mapsto> qm)\<rparr>))
      else Inr st)"

definition ensure_rows :: "pstate \<Rightarrow> nat \<Rightarrow> exn + pstate" where
  "ensure_rows st i =
     (if row_cache st i = None
      then bind_exn (build_row_map (wb st ! i) 1) (\<lambda>rm.
             Inr (st\<lparr>row_cache := (row_cache st)(i \<mapsto> rm)\<rparr>))
      else Inr st)"

definition ensure_cleared :: "pstate \<Rightarrow> nat \<Rightarrow> exn + pstate" where
  "ensure_cleared st i =
     (if i \<notin> cleared st
      then bind_exn (dict_item (header_cache st) i) (\<lambda>qm.
           bind_exn (clear_non_location_rows (wb st ! i) qm 1) (\<lambda>ws'.
             Inr (st\<lparr>wb := (wb st)[i := ws'], cleared := insert i (cleared st)\<rparr>)))
      else Inr st)"

definition prepare :: "pstate \<Rightarrow> nat \<Rightarrow> exn + pstate" where
  "prepare st i =
     bind_exn (ensure_header st i) (\<lambda>st1.
     bind_exn (ensure_rows st1 i) (\<lambda>st2. ensure_cleared st2 i))"

definition sheet_missing :: "string \<Rightarrow> string" where
  "sheet_missing k = ''sheet for kind '' @ [CHR 0x27] @ k @ [CHR 0x27] @ '' not found''"

definition skip :: "pstate \<Rightarrow> Entry \<Rightarrow> string \<Rightarrow> pstate" where
  "skip st e why = st\<lparr>skipped := skipped st @ [(e, why)]\<rparr>"

text \<open>The body of the loop of \<open>process\<close> for one entry.\<close>

definition process_entry :: "pstate \<Rightarrow> Entry \<Rightarrow> exn + pstate" where
  "process_entry st0 e =
     (case resolve st0 (kind e) of
        (None, st) \<Rightarrow> Inr (skip st e (sheet_missing (kind e)))
      | (Some i, st) \<Rightarrow>
          bind_exn (prepare st i) (\<lambda>st'.
          bind_exn (dict_item (header_cache st') i) (\<lambda>qm.
          bind_exn (dict_item (row_cache st') i) (\<lambda>rm.
            (case rm (block e, level e, side e) of
               None \<Rightarrow> Inr (skip st' e ''location not found in column A'')
             | Some r \<Rightarrow>
                 (case map_of qm (qnum e) of
                    None \<Rightarrow> Inr (skip st' e ''question number not found in header'')
                  | Some c \<Rightarrow>
                      Inr (st'\<lparr>wb := (wb st')[i := write_one (wb st' ! i) r c (count e)],
                                written := written st' + 1\<rparr>)))))))"

fun process_loop :: "pstate \<Rightarrow> Entry list \<Rightarrow> exn + pstate" where
  "process_loop st [] = Inr st"
| "process_loop st (e # es) = bind_exn (process_entry st e) (\<lambda>st'. process_loop st' es)"

text \<open>\<open>process\<close> on the entries and the workbook loaded from the input file.\<close>

definition process :: "Entry list \<Rightarrow> workbook \<Rightarrow> exn + pstate" where
  "process entries w = process_loop (init_state w) entries"

section \<open>Notions used to state the properties\<close>


text \<open>
  The captures \<open>g'\<close> are the captures \<open>g\<close> with group \<open>n\<close> set to a text that
  satisfies \<open>P\<close>.
\<close>

definition cap_is :: "caps \<Rightarrow> caps \<Rightarrow> string \<Rightarrow> (string \<Rightarrow> bool) \<Rightarrow> bool" where
  "cap_is g' g n P \<longleftrightarrow> (case map_of g' n of None \<Rightarrow> False | Some u \<Rightarrow> P u)
     \<and> (\<forall>k. k \<noteq> n \<longrightarrow> map_of g' k = map_of g k)"


text \<open>
  Sheet resolution in the words of the specification: a name contains an alias
  case-insensitively when some contiguous part of it is the alias once lower-cased; the
  aliases of the two categories are those of the fixed table.
\<close>

definition spec_ci_contains :: "string \<Rightarrow> string \<Rightarrow> bool" where
  "spec_ci_contains name a \<longleftrightarrow> (\<exists>pre mid post. name = pre @ mid @ post \<and> lower mid = a)"

definition spec_alias_hit :: "string \<Rightarrow> worksheet \<Rightarrow> bool" where
  "spec_alias_hit k ws \<longleftrightarrow>
     (k = ''BW'' \<and> spec_ci_contains (title ws) ''brickwork'')
   \<or> (k = ''SR'' \<and> (spec_ci_contains (title ws) ''sideraise'' \<or> spec_ci_contains (title ws) ''siderise''
        \<or> spec_ci_contains (title ws) ''side raise'' \<or> spec_ci_contains (title ws) ''side-raise''
        \<or> spec_ci_contains (title ws) ''side rise''))"

text \<open>A worksheet and a workbook on which the properties are exercised.\<close>

definition ws_demo :: worksheet where
  "ws_demo = \<lparr>title = ''Brickwork'', max_row = 3, max_column = 4,
     cells = (\<lambda>r c. \<lparr>val = VInt 5, fill = \<lparr>patternType = Some ''solid'', fgColor = ''FF00B050''\<rparr>\<rparr>)\<rparr>"

definition book_demo :: workbook where
  "book_demo = [ws_demo\<lparr>title := ''Summary''\<rparr>, ws_demo\<lparr>title := ''BRICKWORK east''\<rparr>,
     ws_demo\<lparr>title := ''brickwork west''\<rparr>]"

text \<open>
  The location key a cell value carries (\<open>parse_loc\<close> without the exception branch,
  which it never takes), and the question number a header cell declares (the test of
  \<open>build_q_header_map\<close> on one cell).
\<close>

definition loc_of :: "cell_value \<Rightarrow> LocationKey option" where
  "loc_of v = (case parse_loc v of Inr r \<Rightarrow> r | Inl e \<Rightarrow> None)"


text \<open>A cleared cell.\<close>

definition empty_cell :: cell where
  "empty_cell = \<lparr>val = VNone, fill = no_fill\<rparr>"



text \<open>
  A worksheet with a header that declares question 4 twice, a row that is not a location
  and holds an old value, and the same location in rows 3 and 4.
\<close>

definition sheet_demo :: worksheet where
  "sheet_demo = \<lparr>title = ''Brickwork'', max_row = 4, max_column = 4,
     cells = (\<lambda>r c.
       if r = 1 \<and> c = 3 then \<lparr>val = VStr ''4 old'', fill = no_fill\<rparr>
       else if r = 1 \<and> c = 4 then \<lparr>val = VStr ''4 All Clean'', fill = no_fill\<rparr>
       else if r = 2 \<and> c = 1 then \<lparr>val = VStr ''Totals'', fill = no_fill\<rparr>
       else if r = 2 \<and> c = 4 then \<lparr>val = VInt 9, fill = color_fill_for_count 9\<rparr>
       else if (r = 3 \<or> r = 4) \<and> c = 1
         then \<lparr>val = VStr ''Block A 3-Level 3 / East Elevation'', fill = no_fill\<rparr>
       else empty_cell)\<rparr>"












definition e_sr :: Entry where
  "e_sr = \<lparr>block = ''A'', level = 3, side = ''East'', qnum = 4, count = 3, kind = ''SR''\<rparr>"

























section \<open>The matcher: what its results are\<close>


lemma lower_append [simp]: "lower (u @ v) = lower u @ lower v"
  by (simp add: lower_def)











lemma cls_ok_eta [simp]: "cls_ok Digit = is_digit" "cls_ok Space = is_space" "cls_ok Letter = is_letter"
  by (rule ext, simp)+

lemma lower_eq_Nil [simp]: "lower u = [] \<longleftrightarrow> u = []" "[] = lower u \<longleftrightarrow> u = []"
  by (auto simp: lower_def)

lemma cap_is_update [simp]: "cap_is (AList.update n u g) g n P \<longleftrightarrow> P u"
  by (simp add: cap_is_def update_conv')











section \<open>Characters\<close>






lemma is_letter_simps [simp]:
  "is_letter CHR ''e''" "is_letter CHR ''w''" "is_letter CHR ''n''" "is_letter CHR ''s''"
  "is_letter CHR ''E''" "is_letter CHR ''W''" "is_letter CHR ''N''" "is_letter CHR ''S''"
  "is_letter CHR ''B''" "is_letter CHR ''R''"
  by (simp_all add: is_letter_def code_def)






section \<open>The location label parser never raises\<close>






section \<open>Colours and the writing of one cell\<close>



section \<open>Sheet resolution\<close>

lemma contains_iff: "contains t a \<longleftrightarrow> (\<exists>pre post. t = pre @ a @ post)"
proof (induction t)
  case Nil then show ?case by auto
next
  case (Cons c t)
  show ?case
  proof
    assume "contains (c # t) a"
    then consider "take (length a) (c # t) = a" | "contains t a" by auto
    then show "\<exists>pre post. c # t = pre @ a @ post"
    proof cases
      case 1
      then have "c # t = [] @ a @ drop (length a) (c # t)" by (metis append_Nil append_take_drop_id)
      then show ?thesis by blast
    next
      case 2
      with Cons.IH obtain pre post where "t = pre @ a @ post" by blast
      then have "c # t = (c # pre) @ a @ post" by simp
      then show ?thesis by blast
    qed
  next
    assume "\<exists>pre post. c # t = pre @ a @ post"
    then obtain pre post where h: "c # t = pre @ a @ post" by blast
    show "contains (c # t) a"
    proof (cases pre)
      case Nil
      with h have "take (length a) (c # t) = a" by simp
      then show ?thesis by simp
    next
      case (Cons x pre')
      with h have "t = pre' @ a @ post" by simp
      with Cons.IH show ?thesis by auto
    qed
  qed
qed

lemma lower_eq_append:
  assumes "lower t = p @ r"
  shows "\<exists>pre rest. t = pre @ rest \<and> lower pre = p \<and> lower rest = r"
proof -
  have "lower (take (length p) t) = take (length p) (lower t)"
    and "lower (drop (length p) t) = drop (length p) (lower t)"
    by (simp_all add: lower_def take_map drop_map)
  with assms have "lower (take (length p) t) = p" "lower (drop (length p) t) = r" by simp_all
  moreover have "t = take (length p) t @ drop (length p) t" by simp
  ultimately show ?thesis by blast
qed

lemma contains_lower: "contains (lower t) a \<longleftrightarrow> spec_ci_contains t a"
proof
  assume "contains (lower t) a"
  then obtain p q where "lower t = p @ a @ q" unfolding contains_iff by blast
  from lower_eq_append[OF this] obtain pre rest where 1: "t = pre @ rest" "lower rest = a @ q"
    by blast
  from lower_eq_append[OF 1(2)] obtain mid post where "rest = mid @ post" "lower mid = a"
    by blast
  with 1 show "spec_ci_contains t a" unfolding spec_ci_contains_def by blast
next
  assume "spec_ci_contains t a"
  then obtain pre mid post where "t = pre @ mid @ post" "lower mid = a"
    unfolding spec_ci_contains_def by blast
  then have "lower t = lower pre @ a @ lower post" by simp
  then show "contains (lower t) a" unfolding contains_iff by blast
qed

lemma aliases_hit:
  "list_ex (\<lambda>a. contains (lower (title ws)) a) (map lower (case SHEET_ALIASES k of None \<Rightarrow> [] | Some xs \<Rightarrow> xs))
     \<longleftrightarrow> spec_alias_hit k ws"
proof -
  have l: "lower ''brickwork'' = ''brickwork''" "lower ''sideraise'' = ''sideraise''"
    "lower ''siderise'' = ''siderise''" "lower ''side raise'' = ''side raise''"
    "lower ''side-raise'' = ''side-raise''" "lower ''side rise'' = ''side rise''"
    by (simp_all add: lower_def lower_char_def code_def)
  show ?thesis
    by (simp add: SHEET_ALIASES_def spec_alias_hit_def contains_lower l)
qed

lemma pick_loop_Some:
  "pick_loop al book i = Some n \<longleftrightarrow>
     (\<exists>j. n = i + j \<and> j < length book \<and> list_ex (\<lambda>a. contains (lower (title (book ! j))) a) al
        \<and> (\<forall>j' < j. \<not> list_ex (\<lambda>a. contains (lower (title (book ! j'))) a) al))"
proof (induction book arbitrary: i)
  case Nil then show ?case by simp
next
  case (Cons ws book)
  show ?case
  proof (cases "list_ex (\<lambda>a. contains (lower (title ws)) a) al")
    case True
    have "(\<exists>j. n = i + j \<and> j < length (ws # book) \<and> list_ex (\<lambda>a. contains (lower (title ((ws # book) ! j))) a) al
        \<and> (\<forall>j' < j. \<not> list_ex (\<lambda>a. contains (lower (title ((ws # book) ! j'))) a) al)) \<longleftrightarrow> n = i"
    proof
      assume "\<exists>j. n = i + j \<and> j < length (ws # book) \<and> list_ex (\<lambda>a. contains (lower (title ((ws # book) ! j))) a) al
        \<and> (\<forall>j' < j. \<not> list_ex (\<lambda>a. contains (lower (title ((ws # book) ! j'))) a) al)"
      then obtain j where j: "n = i + j" "\<forall>j' < j. \<not> list_ex (\<lambda>a. contains (lower (title ((ws # book) ! j'))) a) al"
        by blast
      have "j = 0"
      proof (rule ccontr)
        assume "j \<noteq> 0" then have "0 < j" by simp
        with j(2) True show False by fastforce
      qed
      with j show "n = i" by simp
    next
      assume "n = i"
      with True show "\<exists>j. n = i + j \<and> j < length (ws # book) \<and> list_ex (\<lambda>a. contains (lower (title ((ws # book) ! j))) a) al
        \<and> (\<forall>j' < j. \<not> list_ex (\<lambda>a. contains (lower (title ((ws # book) ! j'))) a) al)"
        by (intro exI[of _ 0]) simp
    qed
    with True show ?thesis by auto
  next
    case False
    have "(\<exists>j. n = i + j \<and> j < length (ws # book) \<and> list_ex (\<lambda>a. contains (lower (title ((ws # book) ! j))) a) al
        \<and> (\<forall>j' < j. \<not> list_ex (\<lambda>a. contains (lower (title ((ws # book) ! j'))) a) al))
      \<longleftrightarrow> (\<exists>j. n = Suc i + j \<and> j < length book \<and> list_ex (\<lambda>a. contains (lower (title (book ! j))) a) al
        \<and> (\<forall>j' < j. \<not> list_ex (\<lambda>a. contains (lower (title (book ! j'))) a) al))" (is "?L \<longleftrightarrow> ?R")
    proof
      assume ?L
      then obtain j where j: "n = i + j" "j < length (ws # book)" "list_ex (\<lambda>a. contains (lower (title ((ws # book) ! j))) a) al"
        "\<forall>j' < j. \<not> list_ex (\<lambda>a. contains (lower (title ((ws # book) ! j'))) a) al" by blast
      with False obtain j0 where j0: "j = Suc j0" by (cases j) auto
      have "\<forall>j' < j0. \<not> list_ex (\<lambda>a. contains (lower (title (book ! j'))) a) al"
      proof (intro allI impI)
        fix j' assume "j' < j0"
        then have "Suc j' < j" using j0 by simp
        with j(4) have "\<not> list_ex (\<lambda>a. contains (lower (title ((ws # book) ! Suc j'))) a) al" by blast
        then show "\<not> list_ex (\<lambda>a. contains (lower (title (book ! j'))) a) al" by simp
      qed
      with j j0 show ?R by (intro exI[of _ j0]) simp
    next
      assume ?R
      then obtain j where j: "n = Suc i + j" "j < length book" "list_ex (\<lambda>a. contains (lower (title (book ! j))) a) al"
        "\<forall>j' < j. \<not> list_ex (\<lambda>a. contains (lower (title (book ! j'))) a) al" by blast
      have "\<forall>j' < Suc j. \<not> list_ex (\<lambda>a. contains (lower (title ((ws # book) ! j'))) a) al"
      proof (intro allI impI)
        fix j' assume "j' < Suc j"
        then show "\<not> list_ex (\<lambda>a. contains (lower (title ((ws # book) ! j'))) a) al"
          using False j(4) by (cases j') auto
      qed
      with j show ?L by (intro exI[of _ "Suc j"]) simp
    qed
    with False Cons.IH[of "Suc i"] show ?thesis by simp
  qed
qed

lemma pick_loop_None:
  "pick_loop al book i = None \<longleftrightarrow> (\<forall>j < length book. \<not> list_ex (\<lambda>a. contains (lower (title (book ! j))) a) al)"
proof (induction book arbitrary: i)
  case Nil then show ?case by simp
next
  case (Cons ws book)
  show ?case using Cons.IH[of "Suc i"]
    by (auto simp: less_Suc_eq_0_disj)
qed

text \<open>
  C9. Sheet resolution returns the first worksheet, in workbook order, whose name contains
  case-insensitively an alias of the category (BW: brickwork; SR: sideraise, siderise,
  side raise, side-raise, side rise), and returns not-found exactly when no worksheet has
  such a name.
\<close>

theorem pick_sheet_for_kind_first:
  "(pick_sheet_for_kind book k = Some i \<longleftrightarrow>
      i < length book \<and> spec_alias_hit k (book ! i) \<and> (\<forall>j < i. \<not> spec_alias_hit k (book ! j)))
   \<and> (pick_sheet_for_kind book k = None \<longleftrightarrow> (\<forall>j < length book. \<not> spec_alias_hit k (book ! j)))"
  unfolding pick_sheet_for_kind_def pick_loop_Some pick_loop_None aliases_hit
  by auto

theorem pick_sheet_for_kind_first_witness:
  "pick_sheet_for_kind book_demo ''BW'' = Some 1
   \<and> spec_alias_hit ''BW'' (book_demo ! 1) \<and> \<not> spec_alias_hit ''BW'' (book_demo ! 0)
   \<and> pick_sheet_for_kind book_demo ''SR'' = None \<and> \<not> spec_alias_hit ''SR'' (book_demo ! 2)"
proof -
  have p: "pick_sheet_for_kind book_demo ''BW'' = Some 1" by code_simp
  have q: "pick_sheet_for_kind book_demo ''SR'' = None" by code_simp
  have l: "length book_demo = 3" by (simp add: book_demo_def)
  from pick_sheet_for_kind_first[of book_demo "''BW''" 1] pick_sheet_for_kind_first[of book_demo "''SR''"] p q l
  show ?thesis by simp
qed

section \<open>The indices of a worksheet\<close>


lemma bind_exn_Inr [simp]: "bind_exn (Inr v) f = f v"
  by (simp add: bind_exn_def)













section \<open>The stale-row cleaner\<close>

lemma set_cell_simps [simp]:
  "title (set_cell ws r c x) = title ws" "max_row (set_cell ws r c x) = max_row ws"
  "max_column (set_cell ws r c x) = max_column ws"
  "cells (set_cell ws r c x) r' c' = (if r' = r \<and> c' = c then x else cells ws r' c')"
  by (simp_all add: set_cell_def)

lemma clear_row_simps [simp]:
  "title (clear_row ws r cols) = title ws" "max_row (clear_row ws r cols) = max_row ws"
  "max_column (clear_row ws r cols) = max_column ws"
  "cells (clear_row ws r cols) r' c' = (if r' = r \<and> c' \<in> set cols then empty_cell else cells ws r' c')"
  unfolding clear_row_def
  by (induction cols arbitrary: ws) (auto simp: empty_cell_def)

lemma loc_of_VNone [simp]: "loc_of VNone = None"
  by (simp add: loc_of_def parse_loc_def)




section \<open>The main process\<close>























lemma pick_demo:
  "pick_sheet_for_kind [sheet_demo] ''BW'' = Some 0" "pick_sheet_for_kind [sheet_demo] ''SR'' = None"
  by code_simp+












text \<open>
  C3. The program resolves the sheet of a category again for every entry of that category
  when no worksheet matches: \<open>sheet_cache.get\<close> gives \<open>None\<close> both for a category
  never resolved and for one whose stored result is \<open>None\<close>. Two report lines of
  category SR on a workbook with no SR sheet make two calls of
  \<open>pick_sheet_for_kind\<close>, although the first call stored \<open>None\<close> in the cache.
\<close>

lemma parse_demo:
  "parse_line ''3 pictures - Block A L3 East SR x / 4'' = Inr (Some e_sr)"
  by code_simp

theorem missing_sheet_resolved_again:
  "parse_txt [''3 pictures - Block A L3 East SR x / 4'', ''3 pictures - Block A L3 East SR x / 4''] []
     = Inr [e_sr, e_sr]
   \<and> (case process [e_sr, e_sr] [sheet_demo] of
        Inr st \<Rightarrow> resolutions st = [''SR'', ''SR''] \<and> sheet_cache st ''SR'' = Some None
      | Inl x \<Rightarrow> False)"
proof -
  have k: "kind e_sr = ''SR''" by (simp add: e_sr_def)
  have 1: "process_entry (init_state [sheet_demo]) e_sr =
      Inr (skip ((init_state [sheet_demo])\<lparr>sheet_cache := [''SR'' \<mapsto> None], resolutions := [''SR'']\<rparr>) e_sr (sheet_missing ''SR''))"
    using pick_demo(2) by (simp add: process_entry_def resolve_def dict_get_def init_state_def Let_def k)
  have 2: "process_entry (skip ((init_state [sheet_demo])\<lparr>sheet_cache := [''SR'' \<mapsto> None], resolutions := [''SR'']\<rparr>) e_sr (sheet_missing ''SR'')) e_sr =
      Inr (skip ((skip ((init_state [sheet_demo])\<lparr>sheet_cache := [''SR'' \<mapsto> None], resolutions := [''SR'']\<rparr>) e_sr (sheet_missing ''SR''))
              \<lparr>sheet_cache := [''SR'' \<mapsto> None], resolutions := [''SR'', ''SR'']\<rparr>) e_sr (sheet_missing ''SR''))"
    using pick_demo(2) by (simp add: process_entry_def resolve_def dict_get_def init_state_def Let_def k skip_def)
  show ?thesis
    by (simp add: parse_demo process_def 1 2) (simp add: skip_def)
qed

section \<open>The last entry for a cell wins\<close>


lemma write_one_simps [simp]:
  "title (write_one ws r c v) = title ws"
  "cells (write_one ws r c v) r' c' =
     (if r' = r \<and> c' = c then \<lparr>val = VInt v, fill = color_fill_for_count v\<rparr> else cells ws r' c')"
  by (simp_all add: write_one_def)






section \<open>The matcher finds a match exactly when the pattern has one\<close>




section \<open>The report parser\<close>








































section \<open>The level clause of a location label\<close>


























text \<open>
  The scan position comes before the priority: a "Level 3" that starts earlier in the label is
  taken although a ground-level clause follows it.
\<close>

lemma earlier_position_beats_priority:
  "parse_loc (VStr ''Block A Level 3 0 - Ground Level / East Elevation'') = Inr (Some (''A'', 3, ''East''))"
  by code_simp



end
